theory Spec2Isabelle
  imports Complex_Main "HOL-Library.Sublist"
begin

section \<open>JavaScript numbers\<close>

text \<open>
  The amounts and balances of \<^verbatim>\<open>Tabs_Gemini_MVP_1.js\<close> are JavaScript numbers:
  IEEE 754 doubles, the two infinities and NaN. The model keeps the infinities and NaN,
  because the source tests for NaN (\<^verbatim>\<open>isNaN\<close>) and \<^verbatim>\<open>parseFloat\<close> produces all
  three, and represents a finite number by a rational.
  \<^item> A number read from text is rounded to the nearest double (\<open>round_double\<close> below),
    as \<^verbatim>\<open>parseFloat\<close> does.
  \<^item> Addition and subtraction of finite numbers are exact in the model: the rounding of
    a sum to the nearest double, and the sign of zero, are not modelled. The model agrees
    with the program wherever the exact result is a double, and the statements about
    balances are written with the program's own operations in the program's order.
\<close>

datatype jsnum = Fin rat | PInf | NInf | NaN

instantiation jsnum :: "{comm_monoid_add, minus, uminus}"
begin

definition zero_jsnum :: jsnum where
  "zero_jsnum = Fin 0"

fun plus_jsnum :: "jsnum \<Rightarrow> jsnum \<Rightarrow> jsnum" where
  "plus_jsnum NaN y = NaN"
| "plus_jsnum x NaN = NaN"
| "plus_jsnum (Fin a) (Fin b) = Fin (a + b)"
| "plus_jsnum (Fin a) PInf = PInf"
| "plus_jsnum (Fin a) NInf = NInf"
| "plus_jsnum PInf (Fin b) = PInf"
| "plus_jsnum PInf PInf = PInf"
| "plus_jsnum PInf NInf = NaN"
| "plus_jsnum NInf (Fin b) = NInf"
| "plus_jsnum NInf PInf = NaN"
| "plus_jsnum NInf NInf = NInf"

fun uminus_jsnum :: "jsnum \<Rightarrow> jsnum" where
  "uminus_jsnum (Fin a) = Fin (- a)"
| "uminus_jsnum PInf = NInf"
| "uminus_jsnum NInf = PInf"
| "uminus_jsnum NaN = NaN"

definition minus_jsnum :: "jsnum \<Rightarrow> jsnum \<Rightarrow> jsnum" where
  "minus_jsnum x y = x + (- y)"

instance
proof
  fix x y z :: jsnum
  show "x + y = y + x"
    by (cases x; cases y; simp)
  have "Fin 0 + x = x"
    by (cases x; simp)
  then show "0 + x = x"
    unfolding zero_jsnum_def .
  show "x + y + z = x + (y + z)"
    by (cases x; cases y; cases z; simp)
qed

end

text \<open>\<^verbatim>\<open>isNaN(x)\<close>, \<^verbatim>\<open>x < y\<close>, \<^verbatim>\<open>Math.abs(x)\<close> and the truth value of
  a number (\<^verbatim>\<open>0\<close> and \<^verbatim>\<open>NaN\<close> are falsy).\<close>

fun isNaN :: "jsnum \<Rightarrow> bool" where
  "isNaN NaN = True"
| "isNaN x = False"

fun is_finite :: "jsnum \<Rightarrow> bool" where
  "is_finite (Fin a) = True"
| "is_finite x = False"



fun num_truthy :: "jsnum \<Rightarrow> bool" where
  "num_truthy (Fin a) = (a \<noteq> 0)"
| "num_truthy NaN = False"
| "num_truthy x = True"


text \<open>
  Rounding to the nearest double, ties to the even significand. A positive rational
  \<open>a\<close> with \<open>2 ^ e \<le> a < 2 ^ (e + 1)\<close> lies between doubles that are
  \<open>2 ^ (e - 52)\<close> apart, or \<open>2 ^ - 1074\<close> apart below \<open>2 ^ - 1022\<close> (the
  subnormal range); a result of \<open>2 ^ 1024\<close> or more is infinite.
  \<open>floor_log2 n\<close> is the position of the leading bit of \<open>n\<close>.
\<close>

function halvings :: "bool \<Rightarrow> int \<Rightarrow> int" where
  "halvings True n = 0"
| "halvings False n = 1 + halvings (n div 2 < 2) (n div 2)"
  by pat_completeness auto
termination
  by (relation "measure (\<lambda>(small, n). if small then 0 else Suc (nat n))") auto

definition floor_log2 :: "int \<Rightarrow> int" where
  "floor_log2 n = halvings (n < 2) n"

definition pow2 :: "int \<Rightarrow> rat" where
  "pow2 k = (if 0 \<le> k then 2 ^ nat k else 1 / 2 ^ nat (- k))"

definition binary_exponent :: "rat \<Rightarrow> int" where
  "binary_exponent a =
    (let (p, q) = quotient_of a;
         k = floor_log2 p - floor_log2 q
     in if pow2 k \<le> a then k else k - 1)"

definition half_even :: "rat \<Rightarrow> int" where
  "half_even q =
    (let f = \<lfloor>q\<rfloor>; r = q - of_int f
     in if r < 1 / 2 then f else if 1 / 2 < r then f + 1 else if even f then f else f + 1)"

definition round_magnitude :: "rat \<Rightarrow> rat option" where
  "round_magnitude a =
    (let e0 = binary_exponent a in
     if 1024 \<le> e0 then None
     else
       (let e = max e0 (- 1022);
            ulp = pow2 (e - 52);
            n = half_even (a / ulp)
        in if e = 1023 \<and> n = 9007199254740992 then None else Some (of_int n * ulp)))"

definition round_double :: "rat \<Rightarrow> jsnum" where
  "round_double x =
    (if x = 0 then Fin 0
     else if 0 < x then (case round_magnitude x of None \<Rightarrow> PInf | Some y \<Rightarrow> Fin y)
     else (case round_magnitude (- x) of None \<Rightarrow> NInf | Some y \<Rightarrow> Fin (- y)))"

section \<open>Strings\<close>

text \<open>
  A JavaScript string is modelled as a list of 8-bit characters, read as ASCII.
  \<^verbatim>\<open>toLowerCase\<close> maps \<^verbatim>\<open>A\<close>..\<^verbatim>\<open>Z\<close> to \<^verbatim>\<open>a\<close>..\<^verbatim>\<open>z\<close>;
  \<^verbatim>\<open>s.includes(sub)\<close> tests whether \<open>sub\<close> occurs in \<open>s\<close> as a contiguous
  block; \<^verbatim>\<open>trim\<close> removes white space and line terminators (here: tab, line feed,
  vertical tab, form feed, carriage return, space) at both ends; \<^verbatim>\<open>s.split(c)\<close>
  cuts \<open>s\<close> at every occurrence of the character \<open>c\<close> and always returns at least
  one piece.
\<close>

definition lower_char :: "char \<Rightarrow> char" where
  "lower_char c =
    (let n = (of_char c :: nat) in if 65 \<le> n \<and> n \<le> 90 then char_of (n + 32) else c)"

definition toLowerCase :: "string \<Rightarrow> string" where
  "toLowerCase s = map lower_char s"

fun str_includes :: "string \<Rightarrow> string \<Rightarrow> bool" where
  "str_includes [] sub = (sub = [])"
| "str_includes (c # cs) sub = (prefix sub (c # cs) \<or> str_includes cs sub)"

definition is_space :: "char \<Rightarrow> bool" where
  "is_space c = (let n = (of_char c :: nat) in (9 \<le> n \<and> n \<le> 13) \<or> n = 32)"

definition trim :: "string \<Rightarrow> string" where
  "trim s = rev (dropWhile is_space (rev (dropWhile is_space s)))"

fun split_from :: "char \<Rightarrow> string \<Rightarrow> string \<Rightarrow> string list" where
  "split_from sep piece [] = [rev piece]"
| "split_from sep piece (c # cs) =
    (if c = sep then rev piece # split_from sep [] cs else split_from sep (c # piece) cs)"

definition split :: "string \<Rightarrow> char \<Rightarrow> string list" where
  "split s sep = split_from sep [] s"

section \<open>\<^verbatim>\<open>parseFloat\<close>\<close>

text \<open>
  \<^verbatim>\<open>parseFloat\<close> skips leading white space and reads the longest prefix that is a
  decimal literal: an optional sign, then \<^verbatim>\<open>Infinity\<close>, or digits with an optional
  fraction and an optional exponent (an exponent counts only when it has a digit).
  With no such prefix the result is NaN; otherwise it is the double nearest to the
  decimal value of the prefix, infinite when that value is too large.
\<close>

definition is_digit :: "char \<Rightarrow> bool" where
  "is_digit c = (let n = (of_char c :: nat) in 48 \<le> n \<and> n \<le> 57)"

definition digits_val :: "string \<Rightarrow> int" where
  "digits_val ds = foldl (\<lambda>acc c. 10 * acc + (of_char c - 48)) 0 ds"

definition pow10 :: "int \<Rightarrow> rat" where
  "pow10 e = (if 0 \<le> e then 10 ^ nat e else 1 / 10 ^ nat (- e))"

definition signed_digits :: "int \<Rightarrow> string \<Rightarrow> int" where
  "signed_digits sign s =
    (let ds = takeWhile is_digit s in if ds = [] then 0 else sign * digits_val ds)"

fun parse_exponent :: "string \<Rightarrow> int" where
  "parse_exponent [] = 0"
| "parse_exponent (c # r) =
    (if c = CHR ''e'' \<or> c = CHR ''E'' then
       (case r of
          [] \<Rightarrow> 0
        | s # r' \<Rightarrow>
           if s = CHR ''-'' then signed_digits (- 1) r'
           else if s = CHR ''+'' then signed_digits 1 r'
           else signed_digits 1 r)
     else 0)"

definition parse_unsigned :: "string \<Rightarrow> jsnum" where
  "parse_unsigned s =
    (if prefix ''Infinity'' s then PInf
     else
       (let ip = takeWhile is_digit s; r1 = dropWhile is_digit s in
        case r1 of
          [] \<Rightarrow> if ip = [] then NaN else round_double (of_int (digits_val ip))
        | c # r2 \<Rightarrow>
           if c = CHR ''.'' then
             (let fp = takeWhile is_digit r2; r3 = dropWhile is_digit r2 in
              if ip = [] \<and> fp = [] then NaN
              else round_double (of_int (digits_val (ip @ fp))
                        * pow10 (parse_exponent r3 - int (length fp))))
           else if ip = [] then NaN
           else round_double (of_int (digits_val ip) * pow10 (parse_exponent r1))))"

definition parseFloat :: "string \<Rightarrow> jsnum" where
  "parseFloat s =
    (case dropWhile is_space s of
       [] \<Rightarrow> NaN
     | c # r \<Rightarrow>
        if c = CHR ''-'' then - parse_unsigned r
        else if c = CHR ''+'' then parse_unsigned r
        else parse_unsigned (c # r))"

section \<open>JavaScript values\<close>

text \<open>
  The values \<^verbatim>\<open>JSON.parse\<close> returns. An object is the list of its own properties,
  each key once. \<open>truthy\<close> is the truth value \<^verbatim>\<open>||\<close> and \<^verbatim>\<open>!\<close> test.
  \<open>or_default v d\<close> is \<^verbatim>\<open>v || d\<close>, with \<open>None\<close> for \<^verbatim>\<open>undefined\<close>.
  \<open>parseFloat_value v\<close> is \<^verbatim>\<open>parseFloat(v)\<close>, which converts \<open>v\<close> to a string
  first: a number prints to a literal that reads back as itself; \<^verbatim>\<open>true\<close>,
  \<^verbatim>\<open>false\<close>, \<^verbatim>\<open>null\<close> and \<^verbatim>\<open>[object Object]\<close> have no numeric prefix; an array
  prints its elements joined by commas (\<^verbatim>\<open>null\<close> as the empty string), so only its
  first element can give a numeric prefix.
\<close>

datatype jsval =
  JNull
| JBool bool
| JNum jsnum
| JStr string
| JArr "jsval list"
| JObj "(string \<times> jsval) list"

datatype js_error = SyntaxError | TypeError

fun truthy :: "jsval \<Rightarrow> bool" where
  "truthy JNull = False"
| "truthy (JBool b) = b"
| "truthy (JNum n) = num_truthy n"
| "truthy (JStr s) = (s \<noteq> [])"
| "truthy (JArr xs) = True"
| "truthy (JObj props) = True"

definition or_default :: "jsval option \<Rightarrow> jsval \<Rightarrow> jsval" where
  "or_default v d = (case v of None \<Rightarrow> d | Some x \<Rightarrow> if truthy x then x else d)"

fun parseFloat_value :: "jsval \<Rightarrow> jsnum" where
  "parseFloat_value (JStr s) = parseFloat s"
| "parseFloat_value (JNum n) = n"
| "parseFloat_value (JArr (x # xs)) = parseFloat_value x"
| "parseFloat_value v = NaN"

text \<open>\<^verbatim>\<open>item.Date\<close>, \<^verbatim>\<open>item.Description\<close> and \<^verbatim>\<open>item.Amount\<close>: reading a
  property of \<^verbatim>\<open>null\<close> throws a TypeError; an object gives its own property or
  \<^verbatim>\<open>undefined\<close>; strings, numbers, booleans and arrays have no property of these
  three names.\<close>

fun get_property :: "jsval \<Rightarrow> string \<Rightarrow> js_error + jsval option" where
  "get_property JNull name = Inl TypeError"
| "get_property (JObj props) name = Inr (map_of props name)"
| "get_property v name = Inr None"


fun isString :: "jsval \<Rightarrow> bool" where
  "isString (JStr s) = True"
| "isString v = False"

section \<open>Data model\<close>

text \<open>The interfaces \<^verbatim>\<open>Transaction\<close> and \<^verbatim>\<open>Account\<close>, the argument types
  \<^verbatim>\<open>Omit<Transaction, 'id'>\<close> and \<^verbatim>\<open>Partial<Omit<Transaction, 'id'>>\<close>
  (an absent field is \<open>None\<close>), and the two pieces of React state of
  \<^verbatim>\<open>PersonalFinanceApp\<close>. The forms pass strings for dates and descriptions. An
  imported record keeps the date its decoder gave it, which the JSON decoder takes from
  an item of type \<^verbatim>\<open>any\<close>, so the date of a stored transaction is a JavaScript
  value.\<close>

record transaction =
  t_id :: string
  t_date :: jsval
  t_description :: string
  t_category :: string
  t_amount :: jsnum
  t_account :: string

record transaction_input =
  n_date :: string
  n_description :: string
  n_category :: string
  n_amount :: jsnum
  n_account :: string

record updates =
  u_date :: "string option"
  u_description :: "string option"
  u_category :: "string option"
  u_amount :: "jsnum option"
  u_account :: "string option"

datatype account_type = Checking | Savings | Credit

record account =
  a_id :: string
  a_name :: string
  a_type :: account_type
  a_balance :: jsnum

text \<open>The records the decoders return and \<^verbatim>\<open>importTransactions\<close> receives:
  \<^verbatim>\<open>{ date, description, amount }\<close>. The JSON decoder reads items of type
  \<^verbatim>\<open>any\<close>, so \<open>d_date\<close> and \<open>d_description\<close> hold whatever value the item
  carried.\<close>

record decoded =
  d_date :: jsval
  d_description :: jsval
  d_amount :: jsnum

record app_state =
  transactions :: "transaction list"
  accounts :: "account list"

text \<open>The three default accounts of the \<^verbatim>\<open>useState\<close> initialiser, with the
  balances as the source writes them in decimal, and the state of a first launch (nothing
  saved).\<close>

definition seed_accounts :: "account list" where
  "seed_accounts =
    [\<lparr>a_id = ''checking1'', a_name = ''Checking Account 1'', a_type = Checking,
        a_balance = Fin (123456 / 100)\<rparr>,
     \<lparr>a_id = ''savings1'', a_name = ''Savings Account 1'', a_type = Savings,
        a_balance = Fin (567890 / 100)\<rparr>,
     \<lparr>a_id = ''credit1'', a_name = ''Credit Card 1'', a_type = Credit,
        a_balance = Fin (- 500)\<rparr>]"

definition initial_state :: app_state where
  "initial_state = \<lparr>transactions = [], accounts = seed_accounts\<rparr>"

section \<open>Categorizer\<close>

text \<open>\<^verbatim>\<open>categorizeTransaction\<close>, with its chain of \<^verbatim>\<open>if\<close> statements in the
  order of the source.\<close>

definition categorizeTransaction :: "string \<Rightarrow> string" where
  "categorizeTransaction description =
    (let lowerCaseDescription = toLowerCase description in
     if str_includes lowerCaseDescription ''grocery'' then ''Food & Dining''
     else if str_includes lowerCaseDescription ''restaurant'' then ''Food & Dining''
     else if str_includes lowerCaseDescription ''rent'' then ''Housing''
     else if str_includes lowerCaseDescription ''mortgage'' then ''Housing''
     else if str_includes lowerCaseDescription ''fuel'' \<or> str_includes lowerCaseDescription ''gas''
       then ''Transportation''
     else if str_includes lowerCaseDescription ''electricity''
           \<or> str_includes lowerCaseDescription ''water''
       then ''Utilities''
     else if str_includes lowerCaseDescription ''amazon'' \<or> str_includes lowerCaseDescription ''ebay''
       then ''Shopping''
     else if str_includes lowerCaseDescription ''salary''
           \<or> str_includes lowerCaseDescription ''paycheck''
       then ''Income''
     else if str_includes lowerCaseDescription ''netflix'' \<or> str_includes lowerCaseDescription ''hulu''
       then ''Entertainment''
     else ''Other'')"

text \<open>The Categorizer as the specification words it: an ordered table of rules, each a
  list of keywords and a label; the first rule one of whose keywords occurs in the
  lower-cased description gives the label, and \<^verbatim>\<open>Other\<close> is the default.\<close>

definition category_rules :: "(string list \<times> string) list" where
  "category_rules =
    [([''grocery'', ''restaurant''], ''Food & Dining''),
     ([''rent'', ''mortgage''], ''Housing''),
     ([''fuel'', ''gas''], ''Transportation''),
     ([''electricity'', ''water''], ''Utilities''),
     ([''amazon'', ''ebay''], ''Shopping''),
     ([''salary'', ''paycheck''], ''Income''),
     ([''netflix'', ''hulu''], ''Entertainment'')]"

fun first_match :: "(string list \<times> string) list \<Rightarrow> string \<Rightarrow> string" where
  "first_match [] d = ''Other''"
| "first_match ((keywords, label) # rules) d =
    (if list_ex (str_includes d) keywords then label else first_match rules d)"

definition categorize_spec :: "string \<Rightarrow> string" where
  "categorize_spec description = first_match category_rules (toLowerCase description)"

section \<open>Ledger operations\<close>

text \<open>
  Each handler runs to completion on one user event. The closure variable
  \<^verbatim>\<open>transactions\<close> that \<^verbatim>\<open>deleteTransaction\<close> and \<^verbatim>\<open>updateTransaction\<close> read
  is the rendered snapshot, which is the current state when the event arrives; the
  updater functions given to \<^verbatim>\<open>setTransactions\<close> and \<^verbatim>\<open>setAccounts\<close> receive the
  same state. \<^verbatim>\<open>crypto.randomUUID()\<close> is an input: the caller of the model supplies
  the identifier.
\<close>

definition addTransaction :: "string \<Rightarrow> transaction_input \<Rightarrow> app_state \<Rightarrow> app_state" where
  "addTransaction uuid transaction st =
    (let newTransaction =
        \<lparr>t_id = uuid, t_date = JStr (n_date transaction),
         t_description = n_description transaction, t_category = n_category transaction,
         t_amount = n_amount transaction, t_account = n_account transaction\<rparr>
     in \<lparr>transactions = transactions st @ [newTransaction],
         accounts = map (\<lambda>account.
            if a_id account = t_account newTransaction
            then account\<lparr>a_balance := a_balance account + t_amount newTransaction\<rparr>
            else account) (accounts st)\<rparr>)"

definition deleteTransaction :: "string \<Rightarrow> app_state \<Rightarrow> app_state" where
  "deleteTransaction i st =
    (case find (\<lambda>t. t_id t = i) (transactions st) of
       None \<Rightarrow> st
     | Some transactionToDelete \<Rightarrow>
        \<lparr>transactions = filter (\<lambda>transaction. t_id transaction \<noteq> i) (transactions st),
         accounts = map (\<lambda>account.
            if a_id account = t_account transactionToDelete
            then account\<lparr>a_balance := a_balance account - t_amount transactionToDelete\<rparr>
            else account) (accounts st)\<rparr>)"

text \<open>\<^verbatim>\<open>{ ...transaction, ...updates }\<close>: every field present in \<^verbatim>\<open>updates\<close>
  replaces the transaction's.\<close>

definition apply_updates :: "transaction \<Rightarrow> updates \<Rightarrow> transaction" where
  "apply_updates transaction u =
    \<lparr>t_id = t_id transaction,
     t_date = (case u_date u of None \<Rightarrow> t_date transaction | Some v \<Rightarrow> JStr v),
     t_description = (case u_description u of None \<Rightarrow> t_description transaction | Some v \<Rightarrow> v),
     t_category = (case u_category u of None \<Rightarrow> t_category transaction | Some v \<Rightarrow> v),
     t_amount = (case u_amount u of None \<Rightarrow> t_amount transaction | Some v \<Rightarrow> v),
     t_account = (case u_account u of None \<Rightarrow> t_account transaction | Some v \<Rightarrow> v)\<rparr>"

text \<open>The body of the \<^verbatim>\<open>prevAccounts.map\<close> callback of \<^verbatim>\<open>updateTransaction\<close>.
  Both \<^verbatim>\<open>originalTransaction\<close> and \<^verbatim>\<open>updatedTransaction\<close> are looked up in the
  snapshot \<open>snapshot\<close> of the transactions taken before the update.\<close>

definition update_account :: "transaction list \<Rightarrow> string \<Rightarrow> account \<Rightarrow> account" where
  "update_account snapshot i account =
    (case find (\<lambda>t. t_id t = i) snapshot of
       None \<Rightarrow> account
     | Some originalTransaction \<Rightarrow>
        (let updatedTransaction = find (\<lambda>t. t_id t = i) snapshot in
         if a_id account = t_account originalTransaction then
           (let amountDifference =
              (case updatedTransaction of
                 None \<Rightarrow> 0
               | Some upd \<Rightarrow> t_amount upd - t_amount originalTransaction)
            in account\<lparr>a_balance := a_balance account + amountDifference\<rparr>)
         else
           (case updatedTransaction of
              None \<Rightarrow> account
            | Some upd \<Rightarrow>
               if a_id account = t_account upd
               then account\<lparr>a_balance :=
                      a_balance account + (t_amount upd - t_amount originalTransaction)\<rparr>
               else account)))"

definition updateTransaction :: "string \<Rightarrow> updates \<Rightarrow> app_state \<Rightarrow> app_state" where
  "updateTransaction i u st =
    \<lparr>transactions = map (\<lambda>transaction.
        if t_id transaction = i then apply_updates transaction u else transaction)
        (transactions st),
     accounts = map (update_account (transactions st) i) (accounts st)\<rparr>"

text \<open>
  \<^verbatim>\<open>importTransactions\<close>. The \<open>k\<close>-th record of the batch receives the identifier
  \<open>uuids k\<close>. \<^verbatim>\<open>categorizeTransaction(t.description)\<close> calls
  \<^verbatim>\<open>description.toLowerCase()\<close>, which exists on strings only: for a description
  that is a number, a boolean, an array or an object the call throws a TypeError. The
  \<^verbatim>\<open>map\<close> that builds \<^verbatim>\<open>transactionsWithIds\<close> runs before
  \<^verbatim>\<open>setTransactions\<close> and \<^verbatim>\<open>setAccounts\<close>, so an import that throws changes
  nothing.
\<close>

fun transactionsWithIds ::
  "(nat \<Rightarrow> string) \<Rightarrow> nat \<Rightarrow> string \<Rightarrow> decoded list \<Rightarrow> js_error + transaction list" where
  "transactionsWithIds uuids k accountId [] = Inr []"
| "transactionsWithIds uuids k accountId (t # ts) =
    (case d_description t of
       JStr description \<Rightarrow>
        (case transactionsWithIds uuids (Suc k) accountId ts of
           Inl e \<Rightarrow> Inl e
         | Inr rest \<Rightarrow>
            Inr (\<lparr>t_id = uuids k, t_date = d_date t, t_description = description,
                  t_category = categorizeTransaction description,
                  t_amount = d_amount t, t_account = accountId\<rparr> # rest))
     | _ \<Rightarrow> Inl TypeError)"

definition importTransactions ::
  "(nat \<Rightarrow> string) \<Rightarrow> decoded list \<Rightarrow> string \<Rightarrow> app_state \<Rightarrow> js_error + app_state" where
  "importTransactions uuids newTransactions accountId st =
    (case transactionsWithIds uuids 0 accountId newTransactions of
       Inl e \<Rightarrow> Inl e
     | Inr withIds \<Rightarrow>
        Inr \<lparr>transactions = transactions st @ withIds,
             accounts = map (\<lambda>account.
                if a_id account = accountId then
                  (let totalAmount = fold (\<lambda>t sum. sum + d_amount t) newTransactions 0
                   in account\<lparr>a_balance := a_balance account + totalAmount\<rparr>)
                else account) (accounts st)\<rparr>)"

text \<open>Sequences of ledger operations, and the reconciliation invariant of the
  specification: every account's balance is its seed balance plus the sum of the amounts
  of the transactions attributed to it.\<close>

datatype ledger_op =
  Add string transaction_input
| Update string updates
| Delete string

fun apply_op :: "ledger_op \<Rightarrow> app_state \<Rightarrow> app_state" where
  "apply_op (Add uuid transaction) st = addTransaction uuid transaction st"
| "apply_op (Update i u) st = updateTransaction i u st"
| "apply_op (Delete i) st = deleteTransaction i st"

definition run :: "ledger_op list \<Rightarrow> app_state \<Rightarrow> app_state" where
  "run ops st = fold apply_op ops st"

definition attributed :: "string \<Rightarrow> transaction list \<Rightarrow> jsnum" where
  "attributed accountId txs =
    sum_list (map t_amount (filter (\<lambda>t. t_account t = accountId) txs))"

definition reconciled :: "account list \<Rightarrow> app_state \<Rightarrow> bool" where
  "reconciled seed st =
    (map a_id (accounts st) = map a_id seed \<and>
     map a_balance (accounts st) =
     map (\<lambda>a. a_balance a + attributed (a_id a) (transactions st)) seed)"

text \<open>Inputs used in the examples below: a manual entry of 10 on the checking account,
  the state after adding it to a fresh ledger under the identifier \<^verbatim>\<open>t1\<close>, and
  edits of that transaction.\<close>

definition coffee :: transaction_input where
  "coffee =
    \<lparr>n_date = ''2024-01-05'', n_description = ''Coffee beans'',
     n_category = ''Food & Dining'', n_amount = Fin 10, n_account = ''checking1''\<rparr>"

definition state_one :: app_state where
  "state_one = addTransaction ''t1'' coffee initial_state"

definition no_updates :: updates where
  "no_updates =
    \<lparr>u_date = None, u_description = None, u_category = None, u_amount = None,
     u_account = None\<rparr>"

definition amount_to :: "jsnum \<Rightarrow> updates" where
  "amount_to v = no_updates\<lparr>u_amount := Some v\<rparr>"

definition account_to :: "string \<Rightarrow> updates" where
  "account_to a = no_updates\<lparr>u_account := Some a\<rparr>"

section \<open>Aggregation\<close>







section \<open>Import decoders\<close>

subsection \<open>\<^verbatim>\<open>parseCSV\<close>\<close>

fun nth_opt :: "'a list \<Rightarrow> nat \<Rightarrow> 'a option" where
  "nth_opt [] n = None"
| "nth_opt (x # xs) 0 = Some x"
| "nth_opt (x # xs) (Suc n) = nth_opt xs n"

text \<open>\<^verbatim>\<open>headers.forEach((header, index) => { obj[header] = values[index]; })\<close>: a later
  column of the same name overwrites an earlier one, and a column beyond the row's
  values stores \<^verbatim>\<open>undefined\<close>.\<close>

definition row_object :: "string list \<Rightarrow> string list \<Rightarrow> (string \<rightharpoonup> string)" where
  "row_object headers values =
    fold (\<lambda>(index, header) obj. obj(header := nth_opt values index))
      (enumerate 0 headers) Map.empty"

definition or_string :: "string option \<Rightarrow> string \<Rightarrow> string" where
  "or_string v d = (case v of None \<Rightarrow> d | Some s \<Rightarrow> if s = [] then d else s)"

definition csv_row :: "string list \<Rightarrow> string \<Rightarrow> decoded" where
  "csv_row headers line =
    (let values = map trim (split line CHR '','');
         obj = row_object headers values;
         date = or_string (obj ''Date'') [];
         description = or_string (obj ''Description'') [];
         amount = parseFloat (or_string (obj ''Amount'') ''0'')
     in \<lparr>d_date = JStr date, d_description = JStr description, d_amount = amount\<rparr>)"

definition parseCSV :: "string \<Rightarrow> decoded list" where
  "parseCSV text_in =
    (let lines = split (trim text_in) (CHR 0x0A);
         headers = map trim (split (hd lines) CHR '','')
     in map (csv_row headers) (drop 1 lines))"

subsection \<open>\<^verbatim>\<open>parseYNAB\<close>\<close>

text \<open>\<^verbatim>\<open>JSON.parse\<close> is a parameter \<open>json_parse\<close>: it returns the parsed value or
  throws a SyntaxError. Every exception raised in the \<^verbatim>\<open>try\<close> block is caught and
  turned into the empty list.\<close>

definition ynab_item :: "jsval \<Rightarrow> js_error + decoded" where
  "ynab_item item =
    (case get_property item ''Date'' of
       Inl e \<Rightarrow> Inl e
     | Inr vDate \<Rightarrow>
        (case get_property item ''Description'' of
           Inl e \<Rightarrow> Inl e
         | Inr vDescription \<Rightarrow>
            (case get_property item ''Amount'' of
               Inl e \<Rightarrow> Inl e
             | Inr vAmount \<Rightarrow>
                Inr \<lparr>d_date = or_default vDate (JStr []),
                     d_description = or_default vDescription (JStr []),
                     d_amount = parseFloat_value (or_default vAmount (JStr ''0''))\<rparr>)))"

fun map_items :: "jsval list \<Rightarrow> js_error + decoded list" where
  "map_items [] = Inr []"
| "map_items (item # items) =
    (case ynab_item item of
       Inl e \<Rightarrow> Inl e
     | Inr r \<Rightarrow> (case map_items items of Inl e \<Rightarrow> Inl e | Inr rs \<Rightarrow> Inr (r # rs)))"

definition parseYNAB_try :: "(string \<Rightarrow> js_error + jsval) \<Rightarrow> string \<Rightarrow> js_error + decoded list" where
  "parseYNAB_try json_parse text_in =
    (case json_parse text_in of
       Inl e \<Rightarrow> Inl e
     | Inr data \<Rightarrow>
        (case data of
           JArr items \<Rightarrow> map_items items
         | _ \<Rightarrow> Inr []))"

definition parseYNAB :: "(string \<Rightarrow> js_error + jsval) \<Rightarrow> string \<Rightarrow> decoded list" where
  "parseYNAB json_parse text_in =
    (case parseYNAB_try json_parse text_in of Inl e \<Rightarrow> [] | Inr rs \<Rightarrow> rs)"

fun isArray :: "jsval \<Rightarrow> bool" where
  "isArray (JArr items) = True"
| "isArray v = False"

subsection \<open>\<^verbatim>\<open>handleImport\<close>\<close>

text \<open>
  The \<^verbatim>\<open>reader.onload\<close> callback of \<^verbatim>\<open>handleImport\<close>, for a file that was read
  as the text \<open>result\<close>: the \<^verbatim>\<open>switch\<close> on the file type, the filter applied to
  the decoded records, and the call of \<^verbatim>\<open>onImportTransactions\<close>, which is
  \<^verbatim>\<open>importTransactions\<close>. All of it runs in a \<^verbatim>\<open>try\<close> block whose \<^verbatim>\<open>catch\<close>
  shows the error and leaves the ledger as it was. \<open>handleImport\<close> returns the error
  shown, if any, and the state after the callback.
\<close>

datatype file_type = Csv | Ynab | Txt

definition parsedTransactions ::
  "(string \<Rightarrow> js_error + jsval) \<Rightarrow> file_type \<Rightarrow> string \<Rightarrow> decoded list" where
  "parsedTransactions json_parse fileType result =
    (case fileType of
       Csv \<Rightarrow> parseCSV result
     | Ynab \<Rightarrow> parseYNAB json_parse result
     | Txt \<Rightarrow> parseCSV result)"

definition keeps :: "decoded \<Rightarrow> bool" where
  "keeps transaction =
    (if \<not> truthy (d_date transaction) then False
     else if isNaN (d_amount transaction) then False
     else True)"

definition validatedTransactions ::
  "(string \<Rightarrow> js_error + jsval) \<Rightarrow> file_type \<Rightarrow> string \<Rightarrow> decoded list" where
  "validatedTransactions json_parse fileType result =
    filter keeps (parsedTransactions json_parse fileType result)"


definition handleImport ::
  "(string \<Rightarrow> js_error + jsval) \<Rightarrow> (nat \<Rightarrow> string) \<Rightarrow> file_type \<Rightarrow> string \<Rightarrow> string
    \<Rightarrow> app_state \<Rightarrow> js_error option \<times> app_state" where
  "handleImport json_parse uuids fileType result selectedAccount st =
    (case importTransactions uuids (validatedTransactions json_parse fileType result)
            selectedAccount st of
       Inl e \<Rightarrow> (Some e, st)
     | Inr st' \<Rightarrow> (None, st'))"

section \<open>Notions and inputs used in the statements\<close>





text \<open>The items of a JSON array of three objects, the last with the amount text
  \<^verbatim>\<open>n/a\<close> and the second without a date, and two stand-ins for \<^verbatim>\<open>JSON.parse\<close>:
  one that returns this array, one that rejects its input.\<close>

definition json_sample_items :: "jsval list" where
  "json_sample_items =
    [JObj [(''Date'', JStr ''2024-02-01''), (''Description'', JStr ''Rent''),
           (''Amount'', JNum (Fin (- 900)))],
     JObj [(''Date'', JStr []), (''Description'', JStr ''Gift''), (''Amount'', JStr ''20'')],
     JObj [(''Date'', JStr ''2024-02-03''), (''Description'', JStr ''Fee''),
           (''Amount'', JStr ''n/a'')]]"

definition json_parse_sample :: "string \<Rightarrow> js_error + jsval" where
  "json_parse_sample s = Inr (JArr json_sample_items)"

definition json_parse_object :: "string \<Rightarrow> js_error + jsval" where
  "json_parse_object s = Inr (JObj [(''Date'', JStr ''2024-02-01'')])"

definition json_parse_rejects :: "string \<Rightarrow> js_error + jsval" where
  "json_parse_rejects s = Inl SyntaxError"



text \<open>A JSON array of one item whose description is the number 5, and a parser that
  returns it.\<close>

definition json_numeric_items :: "jsval list" where
  "json_numeric_items =
    [JObj [(''Date'', JStr ''2024-02-01''), (''Description'', JNum (Fin 5)),
           (''Amount'', JNum (Fin (- 900)))]]"

definition json_parse_numeric :: "string \<Rightarrow> js_error + jsval" where
  "json_parse_numeric s = Inr (JArr json_numeric_items)"

text \<open>A supply of identifiers: \<^verbatim>\<open>u\<close>, \<^verbatim>\<open>uu\<close>, \<^verbatim>\<open>uuu\<close>, ...\<close>

definition sample_uuids :: "nat \<Rightarrow> string" where
  "sample_uuids k = replicate (Suc k) CHR ''u''"






section \<open>Properties of the ledger\<close>

subsection \<open>Auxiliary facts\<close>

lemma find_id_None:
  "(find (\<lambda>t. t_id t = i) txs = None) = (\<forall>t\<in>set txs. t_id t \<noteq> i)"
  by (auto simp: find_None_iff)

lemma find_id_Some:
  "find (\<lambda>t. t_id t = i) txs = Some d \<Longrightarrow> d \<in> set txs \<and> t_id d = i"
  by (induction txs) (auto split: if_splits)

lemma fin_minus_self: "is_finite x \<Longrightarrow> x - x = 0"
  by (cases x) (simp_all add: minus_jsnum_def zero_jsnum_def)


subsection \<open>Reconciliation over sequences of operations\<close>

text \<open>
  Claim C1: for every sequence of add, update and delete operations starting from the
  seeded accounts, every account's balance equals its seed balance plus the sum of the
  amounts of the transactions attributed to it. The code does not keep this: after
  adding a transaction of 10 to the checking account the ledger is reconciled, and after
  editing its amount to 25 it is not, since the edit leaves the balance at the seed
  plus 10.
\<close>

theorem update_breaks_reconciliation:
  "reconciled seed_accounts (run [Add ''t1'' coffee] initial_state) \<and>
   \<not> reconciled seed_accounts
       (run [Add ''t1'' coffee, Update ''t1'' (amount_to (Fin 25))] initial_state)"
  by code_simp

subsection \<open>The balance pass of an update\<close>

text \<open>
  Claim C2: an update applies the delta \<open>new_amount - old_amount\<close> to the transaction's
  new account, and removes the old amount from the old account when the account changed.
  The code applies no delta: editing the amount of the transaction of \<open>state_one\<close> from
  10 to 25 stores the new amount and leaves the three balances as they were, and so does
  moving the transaction to the savings account.
\<close>

theorem update_applies_no_delta:
  "map t_amount (transactions (updateTransaction ''t1'' (amount_to (Fin 25)) state_one))
     = [Fin 25] \<and>
   map a_balance (accounts (updateTransaction ''t1'' (amount_to (Fin 25)) state_one))
     = [Fin (124456 / 100), Fin (567890 / 100), Fin (- 500)] \<and>
   map t_account (transactions (updateTransaction ''t1'' (account_to ''savings1'') state_one))
     = [''savings1''] \<and>
   map a_balance (accounts (updateTransaction ''t1'' (account_to ''savings1'') state_one))
     = [Fin (124456 / 100), Fin (567890 / 100), Fin (- 500)] \<and>
   map a_balance (accounts state_one)
     = [Fin (124456 / 100), Fin (567890 / 100), Fin (- 500)]"
  by code_simp

text \<open>
  Claim C3, amended: an update whose transaction is absent, or present with a finite stored
  amount, leaves every account as it was, whatever fields it changes: the balance pass
  compares the transaction with itself in the snapshot taken before the update, so the
  delta is \<open>x - x = 0\<close>. (When the stored amount is NaN or infinite, \<open>x - x\<close> is NaN
  and the balance of the transaction's account becomes NaN.)
\<close>

theorem updateTransaction_balances_unchanged:
  assumes "\<forall>t. find (\<lambda>t. t_id t = i) (transactions st) = Some t \<longrightarrow> is_finite (t_amount t)"
  shows "accounts (updateTransaction i u st) = accounts st"
proof -
  have "update_account (transactions st) i a = a" for a
  proof (cases "find (\<lambda>t. t_id t = i) (transactions st)")
    case None
    then show ?thesis by (simp add: update_account_def)
  next
    case (Some t)
    with assms have "t_amount t - t_amount t = 0" by (simp add: fin_minus_self)
    with Some show ?thesis by (simp add: update_account_def Let_def)
  qed
  then show ?thesis by (simp add: updateTransaction_def map_idI)
qed

theorem updateTransaction_balances_unchanged_witness:
  "accounts (updateTransaction ''t1'' (amount_to (Fin 25)) state_one) = accounts state_one \<and>
   accounts (updateTransaction ''t9'' (amount_to (Fin 25)) state_one) = accounts state_one"
proof -
  have present: "find (\<lambda>t. t_id t = ''t1'') (transactions state_one)
      = Some \<lparr>t_id = ''t1'', t_date = JStr ''2024-01-05'', t_description = ''Coffee beans'',
          t_category = ''Food & Dining'', t_amount = Fin 10, t_account = ''checking1''\<rparr>"
    by code_simp
  have absent: "find (\<lambda>t. t_id t = ''t9'') (transactions state_one) = None"
    by code_simp
  have "accounts (updateTransaction ''t1'' (amount_to (Fin 25)) state_one) = accounts state_one"
    using updateTransaction_balances_unchanged[of "''t1''" state_one "amount_to (Fin 25)"] present
    by simp
  moreover
  have "accounts (updateTransaction ''t9'' (amount_to (Fin 25)) state_one) = accounts state_one"
    using updateTransaction_balances_unchanged[of "''t9''" state_one "amount_to (Fin 25)"] absent
    by simp
  ultimately show ?thesis by simp
qed

text \<open>The claim as stated fails once a stored amount is NaN (an edit with the amount
  field cleared stores NaN): the next update of that transaction, here one that changes
  nothing, turns the balance of the checking account into NaN.\<close>

theorem updateTransaction_nan_counterexample:
  "map a_balance (accounts (updateTransaction ''t1'' (amount_to NaN) state_one))
     = [Fin (124456 / 100), Fin (567890 / 100), Fin (- 500)] \<and>
   map a_balance (accounts (updateTransaction ''t1'' no_updates
        (updateTransaction ''t1'' (amount_to NaN) state_one)))
     = [NaN, Fin (567890 / 100), Fin (- 500)]"
  by code_simp

subsection \<open>Bulk import\<close>

lemma transactionsWithIds_strings:
  "list_all (\<lambda>t. isString (d_description t)) batch \<Longrightarrow>
   \<exists>new. transactionsWithIds uuids k accountId batch = Inr new \<and> length new = length batch"
proof (induction batch arbitrary: k)
  case Nil
  then show ?case by simp
next
  case (Cons t batch)
  then obtain s where s: "d_description t = JStr s"
    by (cases "d_description t") simp_all
  from Cons obtain new where "transactionsWithIds uuids (Suc k) accountId batch = Inr new"
    "length new = length batch" by auto
  with s show ?case by simp
qed

lemma transactionsWithIds_not_strings:
  "\<not> list_all (\<lambda>t. isString (d_description t)) batch \<Longrightarrow>
   transactionsWithIds uuids k accountId batch = Inl TypeError"
proof (induction batch arbitrary: k)
  case Nil
  then show ?case by simp
next
  case (Cons t batch)
  show ?case
  proof (cases "d_description t")
    case (JStr s)
    with Cons.prems have "\<not> list_all (\<lambda>t. isString (d_description t)) batch" by simp
    from Cons.IH[OF this] JStr show ?thesis by simp
  qed simp_all
qed

lemma importTransactions_strings:
  assumes "list_all (\<lambda>t. isString (d_description t)) batch"
  shows "\<exists>st'. importTransactions uuids batch accountId st = Inr st' \<and>
     accounts st' =
       map (\<lambda>a. if a_id a = accountId
                 then a\<lparr>a_balance := a_balance a + fold (\<lambda>t sum. sum + d_amount t) batch 0\<rparr>
                 else a) (accounts st) \<and>
     length (transactions st') = length (transactions st) + length batch"
proof -
  from transactionsWithIds_strings[OF assms] obtain new
    where "transactionsWithIds uuids 0 accountId batch = Inr new" "length new = length batch"
    by blast
  then show ?thesis by (simp add: importTransactions_def Let_def)
qed

lemma importTransactions_not_strings:
  "\<not> list_all (\<lambda>t. isString (d_description t)) batch \<Longrightarrow>
   importTransactions uuids batch accountId st = Inl TypeError"
  by (simp add: importTransactions_def transactionsWithIds_not_strings)

text \<open>
  Claim C4, amended. When every description of the batch is a string, importing the batch
  into \<open>accountId\<close> succeeds: the balance of every account with that identifier becomes
  its old balance plus the total that the \<^verbatim>\<open>reduce\<close> accumulates from 0 in the order
  of the batch, with the program's addition, and every other account stays as it was.
  When some description is not a string (the JSON decoder and the validation let such a
  record through), \<^verbatim>\<open>categorizeTransaction\<close> throws a TypeError before any state is
  set: \<open>importTransactions\<close> returns the error, and \<open>handleImport\<close> shows it and leaves
  the ledger and every balance as they were.
\<close>

theorem importTransactions_credits_target:
  "(list_all (\<lambda>t. isString (d_description t)) batch \<longrightarrow>
      (\<exists>st'. importTransactions uuids batch accountId st = Inr st' \<and>
         accounts st' =
           map (\<lambda>a. if a_id a = accountId
                     then a\<lparr>a_balance :=
                            a_balance a + fold (\<lambda>t sum. sum + d_amount t) batch 0\<rparr>
                     else a) (accounts st))) \<and>
   (\<not> list_all (\<lambda>t. isString (d_description t)) batch \<longrightarrow>
      importTransactions uuids batch accountId st = Inl TypeError) \<and>
   (\<not> list_all (\<lambda>t. isString (d_description t)) (validatedTransactions jp ft result) \<longrightarrow>
      handleImport jp uuids ft result accountId st = (Some TypeError, st))"
proof (intro conjI impI)
  assume "list_all (\<lambda>t. isString (d_description t)) batch"
  from importTransactions_strings[OF this, of uuids accountId st]
  show "\<exists>st'. importTransactions uuids batch accountId st = Inr st' \<and>
         accounts st' =
           map (\<lambda>a. if a_id a = accountId
                     then a\<lparr>a_balance :=
                            a_balance a + fold (\<lambda>t sum. sum + d_amount t) batch 0\<rparr>
                     else a) (accounts st)"
    by blast
next
  assume "\<not> list_all (\<lambda>t. isString (d_description t)) batch"
  then show "importTransactions uuids batch accountId st = Inl TypeError"
    by (rule importTransactions_not_strings)
next
  assume "\<not> list_all (\<lambda>t. isString (d_description t)) (validatedTransactions jp ft result)"
  then have "importTransactions uuids (validatedTransactions jp ft result) accountId st
      = Inl TypeError"
    by (rule importTransactions_not_strings)
  then show "handleImport jp uuids ft result accountId st = (Some TypeError, st)"
    by (simp add: handleImport_def)
qed

theorem importTransactions_credits_target_witness:
  "(\<exists>st'. importTransactions sample_uuids
            (validatedTransactions json_parse_sample Ynab ''[...]'') ''credit1'' initial_state
          = Inr st' \<and>
        map a_balance (accounts st') = [Fin (123456 / 100), Fin (567890 / 100), Fin (- 1400)]) \<and>
   importTransactions sample_uuids
     (validatedTransactions json_parse_numeric Ynab ''[...]'') ''credit1'' initial_state
     = Inl TypeError \<and>
   handleImport json_parse_numeric sample_uuids Ynab ''[...]'' ''credit1'' initial_state
     = (Some TypeError, initial_state)"
proof -
  let ?good = "validatedTransactions json_parse_sample Ynab ''[...]''"
  let ?bad = "validatedTransactions json_parse_numeric Ynab ''[...]''"
  have strings: "list_all (\<lambda>t. isString (d_description t)) ?good"
    by code_simp
  have not_strings: "\<not> list_all (\<lambda>t. isString (d_description t)) ?bad"
    by code_simp
  from importTransactions_credits_target[of ?good sample_uuids "''credit1''" initial_state
      json_parse_numeric Ynab "''[...]''"] strings
  obtain st' where ok: "importTransactions sample_uuids ?good ''credit1'' initial_state = Inr st'"
    and acc: "accounts st' =
           map (\<lambda>a. if a_id a = ''credit1''
                     then a\<lparr>a_balance :=
                            a_balance a + fold (\<lambda>t sum. sum + d_amount t) ?good 0\<rparr>
                     else a) (accounts initial_state)"
    by blast
  have "map a_balance
          (map (\<lambda>a. if a_id a = ''credit1''
                     then a\<lparr>a_balance :=
                            a_balance a + fold (\<lambda>t sum. sum + d_amount t) ?good 0\<rparr>
                     else a) (accounts initial_state))
        = [Fin (123456 / 100), Fin (567890 / 100), Fin (- 1400)]"
    by code_simp
  with ok acc have 1: "\<exists>st'. importTransactions sample_uuids ?good ''credit1'' initial_state
          = Inr st' \<and>
        map a_balance (accounts st') = [Fin (123456 / 100), Fin (567890 / 100), Fin (- 1400)]"
    by simp
  from importTransactions_credits_target[of ?bad sample_uuids "''credit1''" initial_state
      json_parse_numeric Ynab "''[...]''"] not_strings
  have 2: "importTransactions sample_uuids ?bad ''credit1'' initial_state = Inl TypeError"
    and 3: "handleImport json_parse_numeric sample_uuids Ynab ''[...]'' ''credit1'' initial_state
     = (Some TypeError, initial_state)"
    by blast+
  from 1 2 3 show ?thesis by blast
qed

text \<open>The claim as stated fails on a validated batch with a description that is not a
  string. The one record of \<open>json_numeric_items\<close> has a date and the amount -900 and
  passes the validation; importing it into the credit card account throws, and the
  balance of that account stays at -500.\<close>

theorem import_type_error_counterexample:
  "validatedTransactions json_parse_numeric Ynab ''[...]''
     = [\<lparr>d_date = JStr ''2024-02-01'', d_description = JNum (Fin 5),
          d_amount = Fin (- 900)\<rparr>] \<and>
   fold (\<lambda>t sum. sum + d_amount t) (validatedTransactions json_parse_numeric Ynab ''[...]'') 0
     = Fin (- 900) \<and>
   handleImport json_parse_numeric sample_uuids Ynab ''[...]'' ''credit1'' initial_state
     = (Some TypeError, initial_state) \<and>
   map a_balance (accounts initial_state)
     = [Fin (123456 / 100), Fin (567890 / 100), Fin (- 500)]"
  by code_simp

subsection \<open>Deletion\<close>

text \<open>
  Claim C10: \<open>deleteTransaction i\<close> changes nothing when no transaction has the
  identifier \<open>i\<close>; when the ledger holds one, found as \<open>d\<close>, the transactions with that
  identifier are removed, the others stay in order, and the amount of \<open>d\<close> is subtracted
  from the balance of the account \<open>d\<close> was attributed to, every other account staying as
  it was.
\<close>

theorem deleteTransaction_absent_or_removed:
  "((\<forall>t\<in>set (transactions st). t_id t \<noteq> i) \<longrightarrow> deleteTransaction i st = st) \<and>
   (\<forall>d. find (\<lambda>t. t_id t = i) (transactions st) = Some d \<longrightarrow>
      d \<in> set (transactions st) \<and> t_id d = i \<and>
      transactions (deleteTransaction i st) = filter (\<lambda>t. t_id t \<noteq> i) (transactions st) \<and>
      i \<notin> t_id ` set (transactions (deleteTransaction i st)) \<and>
      accounts (deleteTransaction i st) =
        map (\<lambda>a. if a_id a = t_account d
                  then a\<lparr>a_balance := a_balance a - t_amount d\<rparr> else a)
          (accounts st))"
proof (intro conjI allI impI)
  assume "\<forall>t\<in>set (transactions st). t_id t \<noteq> i"
  then have "find (\<lambda>t. t_id t = i) (transactions st) = None"
    by (simp add: find_id_None)
  then show "deleteTransaction i st = st"
    by (simp add: deleteTransaction_def)
next
  fix d assume f: "find (\<lambda>t. t_id t = i) (transactions st) = Some d"
  from find_id_Some[OF f] show "d \<in> set (transactions st)" and "t_id d = i" by simp_all
  from f show "transactions (deleteTransaction i st)
      = filter (\<lambda>t. t_id t \<noteq> i) (transactions st)"
    by (simp add: deleteTransaction_def)
  from f show "i \<notin> t_id ` set (transactions (deleteTransaction i st))"
    by (auto simp add: deleteTransaction_def)
  from f show "accounts (deleteTransaction i st) =
        map (\<lambda>a. if a_id a = t_account d
                  then a\<lparr>a_balance := a_balance a - t_amount d\<rparr> else a)
          (accounts st)"
    by (simp add: deleteTransaction_def)
qed

theorem deleteTransaction_absent_or_removed_witness:
  "deleteTransaction ''t2'' state_one = state_one \<and>
   transactions (deleteTransaction ''t1'' state_one) = [] \<and>
   map a_balance (accounts (deleteTransaction ''t1'' state_one)) =
     [Fin (123456 / 100), Fin (567890 / 100), Fin (- 500)]"
proof -
  have absent: "\<forall>t\<in>set (transactions state_one). t_id t \<noteq> ''t2''"
    by code_simp
  have present: "find (\<lambda>t. t_id t = ''t1'') (transactions state_one)
      = Some \<lparr>t_id = ''t1'', t_date = JStr ''2024-01-05'', t_description = ''Coffee beans'',
          t_category = ''Food & Dining'', t_amount = Fin 10, t_account = ''checking1''\<rparr>"
    by code_simp
  from deleteTransaction_absent_or_removed[of state_one "''t2''"] absent
  have 1: "deleteTransaction ''t2'' state_one = state_one" by blast
  from deleteTransaction_absent_or_removed[of state_one "''t1''"] present
  have 2: "transactions (deleteTransaction ''t1'' state_one)
      = filter (\<lambda>t. t_id t \<noteq> ''t1'') (transactions state_one)"
    and 3: "accounts (deleteTransaction ''t1'' state_one) =
        map (\<lambda>a. if a_id a = ''checking1''
                  then a\<lparr>a_balance := a_balance a - Fin 10\<rparr> else a)
          (accounts state_one)" by simp_all
  have 4: "filter (\<lambda>t. t_id t \<noteq> ''t1'') (transactions state_one) = []" by code_simp
  have 5: "map a_balance (map (\<lambda>a. if a_id a = ''checking1''
                  then a\<lparr>a_balance := a_balance a - Fin 10\<rparr> else a)
          (accounts state_one)) = [Fin (123456 / 100), Fin (567890 / 100), Fin (- 500)]"
    by code_simp
  from 1 2 3 4 5 show ?thesis by simp
qed

section \<open>Properties of the aggregation\<close>











section \<open>Properties of the categorizer\<close>

lemma str_includes_sublist: "str_includes s sub = sublist sub s"
  by (induction s) (auto simp: sublist_Cons_right)

text \<open>
  Claim C6: for every description the Categorizer returns the label of the first rule of
  the ordered table one of whose keywords occurs in the lower-cased description, and
  \<^verbatim>\<open>Other\<close> when no rule matches; the three descriptions of the specification get
  \<^verbatim>\<open>Entertainment\<close>, \<^verbatim>\<open>Food & Dining\<close> and \<^verbatim>\<open>Other\<close>.
\<close>

theorem categorizer_first_match:
  "categorizeTransaction d = categorize_spec d \<and>
   categorizeTransaction ''Monthly Netflix subscription'' = ''Entertainment'' \<and>
   categorizeTransaction ''Grocery run at Market'' = ''Food & Dining'' \<and>
   categorizeTransaction ''Unknown vendor xyz'' = ''Other''"
proof (intro conjI)
  show "categorizeTransaction d = categorize_spec d"
    by (simp add: categorizeTransaction_def categorize_spec_def category_rules_def Let_def)
  show "categorizeTransaction ''Monthly Netflix subscription'' = ''Entertainment''"
    by code_simp
  show "categorizeTransaction ''Grocery run at Market'' = ''Food & Dining''"
    by code_simp
  show "categorizeTransaction ''Unknown vendor xyz'' = ''Other''"
    by code_simp
qed

section \<open>Properties of the import decoders\<close>

subsection \<open>Auxiliary facts\<close>

















subsection \<open>Validation\<close>




subsection \<open>Amounts\<close>




subsection \<open>Malformed JSON\<close>

text \<open>
  Claim C9: when the input does not parse as JSON, or parses to a value that is not an
  array, \<open>parseYNAB\<close> returns the empty list; it returns a list on every input, so no
  error reaches the caller.
\<close>

theorem parseYNAB_malformed:
  assumes "(\<exists>e. json_parse text_in = Inl e)
    \<or> (\<exists>v. json_parse text_in = Inr v \<and> \<not> isArray v)"
  shows "parseYNAB json_parse text_in = []"
  using assms
proof
  assume "\<exists>e. json_parse text_in = Inl e"
  then show ?thesis by (auto simp: parseYNAB_def parseYNAB_try_def)
next
  assume "\<exists>v. json_parse text_in = Inr v \<and> \<not> isArray v"
  then obtain v where "json_parse text_in = Inr v" "\<not> isArray v" by blast
  then show ?thesis by (cases v) (simp_all add: parseYNAB_def parseYNAB_try_def)
qed

theorem parseYNAB_malformed_witness:
  "parseYNAB json_parse_rejects ''{oops'' = [] \<and> parseYNAB json_parse_object ''{}'' = []"
proof -
  have "\<exists>e. json_parse_rejects ''{oops'' = Inl e"
    by (simp add: json_parse_rejects_def)
  then have 1: "parseYNAB json_parse_rejects ''{oops'' = []"
    using parseYNAB_malformed[of json_parse_rejects "''{oops''"] by blast
  have "\<exists>v. json_parse_object ''{}'' = Inr v \<and> \<not> isArray v"
    by (simp add: json_parse_object_def)
  then have 2: "parseYNAB json_parse_object ''{}'' = []"
    using parseYNAB_malformed[of json_parse_object "''{}''"] by blast
  from 1 2 show ?thesis by simp
qed

end
